theory Spec2Isabelle
  imports Main
begin

section \<open>The host and the world the manager acts on\<close>

text \<open>
  \<open>StartupManager.py\<close> is a single class whose three operations are sequences of calls
  into the operating system: \<open>os.makedirs\<close>, \<open>open\<close>/\<open>write\<close>, \<open>os.chmod\<close>,
  \<open>os.remove\<close>, \<open>Path.exists\<close> and \<open>subprocess.run\<close>. The embedding passes an explicit
  \<open>world\<close> through every call and returns, with the new world, either the value returned or
  the exception raised.

  A path is modelled by its string. Exceptions are values; every constructor below is a
  subclass of Python's \<open>Exception\<close>, so \<open>except Exception\<close> catches each of them.
\<close>

type_synonym path = string

datatype error =
    NotImplementedError string
  | FileNotFoundError string
  | RuntimeError string
  | OSError string
  | CalledProcessError int "string list"

datatype 'a outcome = Returns 'a | Raises error

text \<open>
  A directory entry is a regular file with its text and permission bits, or a native
  shortcut object with its target (the \<open>.lnk\<close> the Windows shell writes).
\<close>

datatype node = File string nat | Shortcut path

text \<open>The calls that change or may change the system, in the order they are attempted.\<close>

datatype call =
    Makedirs path
  | OpenWrite path string
  | Chmod path nat
  | Remove path
  | Run "string list"

record world =
  files :: "path \<rightharpoonup> node"
  dirs :: "path set"
  agents :: "path set"
  stdout :: "(string \<times> error) list"
  calls :: "call list"

text \<open>
  \<open>files\<close> and \<open>dirs\<close> are the filesystem, \<open>agents\<close> the descriptors registered with the
  session manager (launchd), \<open>stdout\<close> what was printed: \<open>print(f"Error ...: {e}")\<close> is
  recorded as the pair of the prefix and the exception \<open>e\<close>. \<open>calls\<close> is the log of the
  system calls attempted.

  The host is everything the code reads from its platform and does not compute itself:
  the library functions it calls on paths, and whether the operating system refuses a
  request. The refusals are fixed per path and per command line: the environment does
  not change its mind between two calls of the manager.
\<close>

record host =
  platform_system :: string
  path_home :: "path option"
  expandvars :: "string \<Rightarrow> string"
  abspath :: "string \<Rightarrow> string"
  joinpath :: "path \<Rightarrow> string \<Rightarrow> path"
  parent_dirs :: "path \<Rightarrow> path list"
  umask_mode :: nat
  mkdir_error :: "path \<Rightarrow> (error \<times> nat) option"
  open_error :: "path \<Rightarrow> error option"
  write_error :: "path \<Rightarrow> (error \<times> nat) option"
  chmod_error :: "path \<Rightarrow> error option"
  remove_error :: "path \<Rightarrow> error option"
  spawn :: "string list \<Rightarrow> error + int"

text \<open>
  \<^item> \<open>platform_system\<close> is \<open>platform.system()\<close>; \<open>path_home\<close> is \<open>Path.home()\<close>, \<open>None\<close> when
    the home directory cannot be determined (Python raises \<open>RuntimeError\<close>);
  \<^item> \<open>expandvars\<close>, \<open>abspath\<close> are \<open>os.path.expandvars\<close> and \<open>os.path.abspath\<close> (the latter
    with the working directory of the process at the time of the call); \<open>joinpath\<close> is
    pathlib's \<open>/\<close>; \<open>parent_dirs\<close> lists the ancestors of a path, which \<open>os.makedirs\<close>
    creates with it;
  \<^item> \<open>umask_mode\<close> is the mode a newly created file gets;
  \<^item> \<open>mkdir_error p = Some (e, k)\<close>: creating \<open>p\<close> fails with \<open>e\<close> after \<open>k\<close> of its ancestors
    were created; \<open>write_error p = Some (e, n)\<close>: writing to \<open>p\<close> fails with \<open>e\<close> after \<open>n\<close>
    characters; the other \<open>_error\<close> fields refuse the request outright;
  \<^item> \<open>spawn args\<close> is \<open>Inl e\<close> when the executable cannot be started and \<open>Inr rc\<close> with the
    exit status otherwise.
\<close>

type_synonym 'a action = "world \<Rightarrow> 'a outcome \<times> world"

definition and_then :: "'a action \<Rightarrow> ('a \<Rightarrow> 'b action) \<Rightarrow> 'b action" where
  "and_then f g w =
     (case f w of
        (Returns x, w') \<Rightarrow> g x w'
      | (Raises e, w') \<Rightarrow> (Raises e, w'))"

definition record_call :: "call \<Rightarrow> world \<Rightarrow> world" where
  "record_call c w = w\<lparr>calls := calls w @ [c]\<rparr>"

subsection \<open>The system calls\<close>

text \<open>\<open>Path.exists()\<close> and \<open>os.path.exists\<close>: anything at that path.\<close>

definition path_exists :: "world \<Rightarrow> path \<Rightarrow> bool" where
  "path_exists w p = (files w p \<noteq> None \<or> p \<in> dirs w)"

text \<open>
  \<open>os.makedirs(p, exist_ok=True)\<close>: nothing to do when \<open>p\<close> is a directory; an error when
  \<open>p\<close> is something else; otherwise \<open>p\<close> and its missing ancestors are created.
\<close>

definition os_makedirs :: "host \<Rightarrow> path \<Rightarrow> unit action" where
  "os_makedirs h p w =
     (let w1 = record_call (Makedirs p) w in
      if p \<in> dirs w1 then (Returns (), w1)
      else if files w1 p \<noteq> None then (Raises (OSError (''File exists: '' @ p)), w1)
      else case mkdir_error h p of
             Some (e, k) \<Rightarrow> (Raises e, w1\<lparr>dirs := dirs w1 \<union> set (take k (parent_dirs h p))\<rparr>)
           | None \<Rightarrow> (Returns (), w1\<lparr>dirs := dirs w1 \<union> set (parent_dirs h p) \<union> {p}\<rparr>))"

text \<open>
  \<open>with open(p, 'w') as f: f.write(s)\<close>: the file is created (with the mode of the
  process's umask) or truncated (keeping its mode), then written.
\<close>

definition open_write :: "host \<Rightarrow> path \<Rightarrow> string \<Rightarrow> unit action" where
  "open_write h p s w =
     (let w1 = record_call (OpenWrite p s) w in
      if p \<in> dirs w1 then (Raises (OSError (''Is a directory: '' @ p)), w1)
      else case open_error h p of
             Some e \<Rightarrow> (Raises e, w1)
           | None \<Rightarrow>
               (let m = (case files w1 p of Some (File old m0) \<Rightarrow> m0 | _ \<Rightarrow> umask_mode h) in
                case write_error h p of
                  Some (e, n) \<Rightarrow> (Raises e, w1\<lparr>files := (files w1)(p \<mapsto> File (take n s) m)\<rparr>)
                | None \<Rightarrow> (Returns (), w1\<lparr>files := (files w1)(p \<mapsto> File s m)\<rparr>)))"

definition os_chmod :: "host \<Rightarrow> path \<Rightarrow> nat \<Rightarrow> unit action" where
  "os_chmod h p m w =
     (let w1 = record_call (Chmod p m) w in
      case chmod_error h p of
        Some e \<Rightarrow> (Raises e, w1)
      | None \<Rightarrow>
          (case files w1 p of
             Some (File s m0) \<Rightarrow> (Returns (), w1\<lparr>files := (files w1)(p \<mapsto> File s m)\<rparr>)
           | Some (Shortcut t) \<Rightarrow> (Returns (), w1)
           | None \<Rightarrow>
               if p \<in> dirs w1 then (Returns (), w1)
               else (Raises (FileNotFoundError (''No such file or directory: '' @ p)), w1)))"

text \<open>\<open>os.remove(p)\<close> deletes a file and raises on a directory or a missing path.\<close>

definition os_remove :: "host \<Rightarrow> path \<Rightarrow> unit action" where
  "os_remove h p w =
     (let w1 = record_call (Remove p) w in
      case remove_error h p of
        Some e \<Rightarrow> (Raises e, w1)
      | None \<Rightarrow>
          if files w1 p \<noteq> None then (Returns (), w1\<lparr>files := (files w1)(p := None)\<rparr>)
          else if p \<in> dirs w1 then (Raises (OSError (''Is a directory: '' @ p)), w1)
          else (Raises (FileNotFoundError (''No such file or directory: '' @ p)), w1))"

subsection \<open>The external programs\<close>

text \<open>
  The three command lines the class runs. The script given to PowerShell is the
  f-string of \<open>enable\<close>, indentation included.
\<close>

datatype command =
    CreateShortcut path path
  | LaunchctlLoad path
  | LaunchctlUnload path

definition ps_command :: "path \<Rightarrow> path \<Rightarrow> string" where
  "ps_command shortcut_path target =
     ''\<newline>'' @
     ''                $WshShell = New-Object -comObject WScript.Shell\<newline>'' @
     ''                $Shortcut = $WshShell.CreateShortcut('' @ [CHR 0x27] @ shortcut_path @ [CHR 0x27] @ '')\<newline>'' @
     ''                $Shortcut.TargetPath = '' @ [CHR 0x27] @ target @ [CHR 0x27] @ ''\<newline>'' @
     ''                $Shortcut.Save()\<newline>'' @
     ''                ''"

fun argv :: "command \<Rightarrow> string list" where
  "argv (CreateShortcut shortcut_path target) =
     [''powershell'', ''-Command'', ps_command shortcut_path target]"
| "argv (LaunchctlLoad p) = [''launchctl'', ''load'', p]"
| "argv (LaunchctlUnload p) = [''launchctl'', ''unload'', p]"

text \<open>
  What a program that exits with status 0 has done. The programs are collaborators of the
  class, known by their contract only: the shell-automation host saves a shortcut with
  the given target at the given path, the session-agent utility registers or
  deregisters the descriptor. Neither touches anything else.
\<close>

fun effect :: "command \<Rightarrow> world \<Rightarrow> world" where
  "effect (CreateShortcut shortcut_path target) w =
     w\<lparr>files := (files w)(shortcut_path \<mapsto> Shortcut target)\<rparr>"
| "effect (LaunchctlLoad p) w = w\<lparr>agents := insert p (agents w)\<rparr>"
| "effect (LaunchctlUnload p) w = w\<lparr>agents := agents w - {p}\<rparr>"

text \<open>
  \<open>subprocess.run(args, check=True, capture_output=True)\<close>: raises when the program
  cannot be started, and, because of \<open>check=True\<close>, when it exits with a status other
  than 0.
\<close>

definition subprocess_run :: "host \<Rightarrow> command \<Rightarrow> unit action" where
  "subprocess_run h c w =
     (let w1 = record_call (Run (argv c)) w in
      case spawn h (argv c) of
        Inl e \<Rightarrow> (Raises e, w1)
      | Inr rc \<Rightarrow>
          if rc \<noteq> 0 then (Raises (CalledProcessError rc (argv c)), w1)
          else (Returns (), effect c w1))"

definition print_error :: "string \<Rightarrow> error \<Rightarrow> world \<Rightarrow> world" where
  "print_error prefix e w = w\<lparr>stdout := stdout w @ [(prefix, e)]\<rparr>"

section \<open>The class \<open>StartupManager\<close>\<close>

record manager =
  app_name :: string
  app_path :: string
  system :: string

text \<open>
  \<open>__init__\<close>: stores the name, the absolute path and the platform's name, and raises
  \<open>FileNotFoundError\<close> when nothing exists at the absolute path. It reads the world and
  does not change it.
\<close>

definition init :: "host \<Rightarrow> world \<Rightarrow> string \<Rightarrow> string \<Rightarrow> manager outcome" where
  "init h w name given_path =
     (let self = \<lparr>app_name = name, app_path = abspath h given_path,
                  system = platform_system h\<rparr> in
      if \<not> path_exists w (app_path self)
      then Raises (FileNotFoundError (''Application path not found: '' @ app_path self))
      else Returns self)"

definition startup_folder :: string where
  "startup_folder =
     ''%APPDATA%'' @ [CHR 0x5C] @ ''Microsoft'' @ [CHR 0x5C] @ ''Windows'' @ [CHR 0x5C] @
     ''Start Menu'' @ [CHR 0x5C] @ ''Programs'' @ [CHR 0x5C] @ ''Startup''"

definition home :: "host \<Rightarrow> path action" where
  "home h w =
     (case path_home h of
        None \<Rightarrow> (Raises (RuntimeError ''Could not determine home directory.''), w)
      | Some d \<Rightarrow> (Returns d, w))"

definition get_startup_location :: "host \<Rightarrow> manager \<Rightarrow> path action" where
  "get_startup_location h self =
     (if system self = ''Windows'' then
        (\<lambda>w. (Returns (expandvars h startup_folder), w))
      else if system self = ''Darwin'' then
        and_then (home h) (\<lambda>d.
          let launch_agents = joinpath h (joinpath h d ''Library'') ''LaunchAgents'' in
          and_then (os_makedirs h launch_agents) (\<lambda>_ w.
            (Returns (joinpath h launch_agents (app_name self @ ''.plist'')), w)))
      else if system self = ''Linux'' then
        and_then (home h) (\<lambda>d.
          let autostart_dir = joinpath h (joinpath h d ''.config'') ''autostart'' in
          and_then (os_makedirs h autostart_dir) (\<lambda>_ w.
            (Returns (joinpath h autostart_dir (app_name self @ ''.desktop'')), w)))
      else
        (\<lambda>w. (Raises (NotImplementedError
                 (''Unsupported operating system: '' @ system self)), w)))"

text \<open>
  \<open>is_enabled\<close> has no \<open>try\<close>: what \<open>_get_startup_location\<close> raises reaches the caller.
  The value is \<open>Some b\<close> for the boolean \<open>b\<close>; an \<open>if\<close>/\<open>elif\<close> chain that matches nothing
  falls off the end of the function, which in Python returns \<open>None\<close>.
\<close>

definition is_enabled :: "host \<Rightarrow> manager \<Rightarrow> bool option action" where
  "is_enabled h self =
     and_then (get_startup_location h self) (\<lambda>startup_location w.
       if system self = ''Windows'' then
         (let shortcut_path = joinpath h startup_location (app_name self @ ''.lnk'') in
          (Returns (Some (path_exists w shortcut_path)), w))
       else if system self = ''Darwin'' then
         (Returns (Some (path_exists w startup_location)), w)
       else if system self = ''Linux'' then
         (Returns (Some (path_exists w startup_location)), w)
       else (Returns None, w))"

definition plist_content :: "manager \<Rightarrow> string" where
  \<open>plist_content self =
     ''<?xml version="1.0" encoding="UTF-8"?>\<newline>'' @
     ''<!DOCTYPE plist PUBLIC "-//Apple//DTD PLIST 1.0//EN" "http://www.apple.com/DTDs/PropertyList-1.0.dtd">\<newline>'' @
     ''<plist version="1.0">\<newline>'' @
     ''<dict>\<newline>'' @
     ''    <key>Label</key>\<newline>'' @
     ''    <string>'' @ app_name self @ ''</string>\<newline>'' @
     ''    <key>ProgramArguments</key>\<newline>'' @
     ''    <array>\<newline>'' @
     ''        <string>'' @ app_path self @ ''</string>\<newline>'' @
     ''    </array>\<newline>'' @
     ''    <key>RunAtLoad</key>\<newline>'' @
     ''    <true/>\<newline>'' @
     ''</dict>\<newline>'' @
     ''</plist>\<newline>''\<close>

definition desktop_content :: "manager \<Rightarrow> string" where
  "desktop_content self =
     ''[Desktop Entry]\<newline>'' @
     ''Type=Application\<newline>'' @
     ''Name='' @ app_name self @ ''\<newline>'' @
     ''Exec='' @ app_path self @ ''\<newline>'' @
     ''Terminal=false\<newline>'' @
     ''X-GNOME-Autostart-enabled=true\<newline>''"

text \<open>
  The body of the \<open>try\<close> of \<open>enable\<close>. The modes are Python's \<open>0o644\<close> and \<open>0o755\<close>.
\<close>

definition enable_body :: "host \<Rightarrow> manager \<Rightarrow> bool action" where
  "enable_body h self =
     and_then (get_startup_location h self) (\<lambda>startup_location.
       if system self = ''Windows'' then
         (let shortcut_path = joinpath h startup_location (app_name self @ ''.lnk'') in
          and_then (subprocess_run h (CreateShortcut shortcut_path (app_path self)))
            (\<lambda>_ w. (Returns True, w)))
       else if system self = ''Darwin'' then
         and_then (open_write h startup_location (plist_content self)) (\<lambda>_.
         and_then (os_chmod h startup_location 420) (\<lambda>_.
         and_then (subprocess_run h (LaunchctlLoad startup_location))
           (\<lambda>_ w. (Returns True, w))))
       else if system self = ''Linux'' then
         and_then (open_write h startup_location (desktop_content self)) (\<lambda>_.
         and_then (os_chmod h startup_location 493)
           (\<lambda>_ w. (Returns True, w)))
       else (\<lambda>w. (Returns True, w)))"

text \<open>\<open>try: ... except Exception as e: print(...); return False\<close>.\<close>

definition catch_all :: "string \<Rightarrow> bool action \<Rightarrow> bool action" where
  "catch_all prefix body w =
     (case body w of
        (Returns b, w') \<Rightarrow> (Returns b, w')
      | (Raises e, w') \<Rightarrow> (Returns False, print_error prefix e w'))"

definition enable :: "host \<Rightarrow> manager \<Rightarrow> bool action" where
  "enable h self = catch_all ''Error enabling startup: '' (enable_body h self)"

definition disable_body :: "host \<Rightarrow> manager \<Rightarrow> bool action" where
  "disable_body h self =
     and_then (get_startup_location h self) (\<lambda>startup_location w.
       if system self = ''Darwin'' then
         (if path_exists w startup_location then
            and_then (subprocess_run h (LaunchctlUnload startup_location)) (\<lambda>_.
            and_then (os_remove h startup_location)
              (\<lambda>_ w'. (Returns True, w'))) w
          else (Returns True, w))
       else if system self = ''Windows'' then
         (let shortcut_path = joinpath h startup_location (app_name self @ ''.lnk'') in
          if path_exists w shortcut_path then
            and_then (os_remove h shortcut_path) (\<lambda>_ w'. (Returns True, w')) w
          else (Returns True, w))
       else if system self = ''Linux'' then
         (if path_exists w startup_location then
            and_then (os_remove h startup_location) (\<lambda>_ w'. (Returns True, w')) w
          else (Returns True, w))
       else (Returns True, w))"

definition disable :: "host \<Rightarrow> manager \<Rightarrow> bool action" where
  "disable h self = catch_all ''Error disabling startup: '' (disable_body h self)"

section \<open>Concrete hosts and worlds\<close>

text \<open>
  A POSIX-like host on which nothing is refused and every program exits with status 0,
  and a world that holds the executable \<open>/usr/local/bin/sample\<close> and the user's home
  directory. The theorems below are evaluated on them and on variants of them.
\<close>

definition demo_parents :: "path \<Rightarrow> path list" where
  "demo_parents p =
     (if p = ''/home/u/.config/autostart'' then [''/home/u/.config'', ''/home/u'']
      else if p = ''/home/u/Library/LaunchAgents'' then [''/home/u/Library'', ''/home/u'']
      else [])"

definition demo_abspath :: "string \<Rightarrow> string" where
  "demo_abspath p = (if take 1 p = ''/'' then p else ''/work/'' @ p)"

definition demo_host :: "string \<Rightarrow> host" where
  "demo_host sysname =
     \<lparr>platform_system = sysname,
      path_home = Some ''/home/u'',
      expandvars = (\<lambda>s. ''C:/Users/u/AppData/Roaming'' @ drop 9 s),
      abspath = demo_abspath,
      joinpath = (\<lambda>d s. d @ ''/'' @ s),
      parent_dirs = demo_parents,
      umask_mode = 420,
      mkdir_error = (\<lambda>p. None),
      open_error = (\<lambda>p. None),
      write_error = (\<lambda>p. None),
      chmod_error = (\<lambda>p. None),
      remove_error = (\<lambda>p. None),
      spawn = (\<lambda>args. Inr 0)\<rparr>"

definition demo_world :: world where
  "demo_world =
     \<lparr>files = [''/usr/local/bin/sample'' \<mapsto> File ''#!/bin/sh'' 493],
      dirs = {''/home/u''},
      agents = {},
      stdout = [],
      calls = []\<rparr>"

definition sample :: "string \<Rightarrow> manager" where
  "sample sysname =
     \<lparr>app_name = ''Sample'', app_path = ''/usr/local/bin/sample'', system = sysname\<rparr>"



text \<open>A world whose only file is the script \<open>/work/sample.py\<close>, \<open>/work\<close> being the working
  directory that \<open>demo_abspath\<close> resolves relative paths against.\<close>

definition work_world :: world where
  "work_world =
     \<lparr>files = [''/work/sample.py'' \<mapsto> File ''print(1)'' 420],
      dirs = {''/home/u'', ''/work''},
      agents = {},
      stdout = [],
      calls = []\<rparr>"


text \<open>
  Two Darwin hosts on which \<open>launchctl\<close> exits with status 1, for \<open>unload\<close> on the first
  and for \<open>load\<close> on the second, and the path of the sample application's descriptor.
\<close>

definition stubborn_agent_host :: host where
  "stubborn_agent_host =
     (demo_host ''Darwin'')\<lparr>spawn :=
        (\<lambda>args. if take 2 args = [''launchctl'', ''unload''] then Inr 1 else Inr 0)\<rparr>"

definition no_loader_host :: host where
  "no_loader_host =
     (demo_host ''Darwin'')\<lparr>spawn :=
        (\<lambda>args. if take 2 args = [''launchctl'', ''load''] then Inr 1 else Inr 0)\<rparr>"

definition agent_path :: path where
  "agent_path = ''/home/u/Library/LaunchAgents/Sample.plist''"

section \<open>Reading the rendered artifacts back\<close>

text \<open>
  The lines of a text, each ended by a line feed, and among them the \<open>key=value\<close> lines
  of a desktop entry: the lines that hold an equals sign.
\<close>

fun lines_of :: "string \<Rightarrow> string \<Rightarrow> string list" where
  "lines_of acc [] = (if acc = [] then [] else [acc])"
| "lines_of acc (c # cs) =
     (if c = CHR ''\<newline>'' then acc # lines_of [] cs else lines_of (acc @ [c]) cs)"

definition key_value_lines :: "string \<Rightarrow> string list" where
  "key_value_lines s = filter (\<lambda>l. CHR ''='' \<in> set l) (lines_of [] s)"

text \<open>
  A reader for the XML property lists the class writes, used to state what a rendered
  descriptor means. It follows the two layers of Python's \<open>plistlib\<close>: an XML layer that
  normalises line ends, splits the document into tags and character data, checks that
  character data holds only legal characters, no \<open>]]>\<close> and only the five predefined
  entities, and checks that elements nest; and an event layer that builds the value with
  a stack of open containers, a pending key and the text collected since the last start
  tag. It reads the elements \<open>plist\<close>, \<open>dict\<close>, \<open>array\<close>, \<open>key\<close>, \<open>string\<close>, \<open>true\<close> and
  \<open>false\<close> and rejects every other one; the prolog and the document type are skipped.
  \<open>None\<close> means that the document is not a well-formed property list.
\<close>

datatype plist = PString string | PBool bool | PArray "plist list" | PDict "(string \<times> plist) list"

fun normalize_eol :: "string \<Rightarrow> string" where
  "normalize_eol (a # b # cs) =
     (if a = CHR 0x0D
      then (if b = CHR ''\<newline>'' then CHR ''\<newline>'' # normalize_eol cs
            else CHR ''\<newline>'' # normalize_eol (b # cs))
      else a # normalize_eol (b # cs))"
| "normalize_eol [a] = (if a = CHR 0x0D then [CHR ''\<newline>''] else [a])"
| "normalize_eol [] = []"

datatype raw = RawTag string | RawText string

definition text_run :: "string \<Rightarrow> raw list" where
  "text_run acc = (if acc = [] then [] else [RawText acc])"

fun lex :: "bool \<Rightarrow> string \<Rightarrow> string \<Rightarrow> raw list option" where
  "lex in_tag acc [] = (if in_tag then None else Some (text_run acc))"
| "lex in_tag acc (c # cs) =
     (if in_tag then
        (if c = CHR ''>'' then map_option (Cons (RawTag acc)) (lex False [] cs)
         else lex True (acc @ [c]) cs)
      else
        (if c = CHR ''<'' then map_option (append (text_run acc)) (lex True [] cs)
         else lex False (acc @ [c]) cs))"

definition entity :: "string \<Rightarrow> char option" where
  "entity name =
     (if name = ''amp'' then Some (CHR ''&'')
      else if name = ''lt'' then Some (CHR ''<'')
      else if name = ''gt'' then Some (CHR ''>'')
      else if name = ''quot'' then Some (CHR 0x22)
      else if name = ''apos'' then Some (CHR 0x27)
      else None)"

definition xml_char :: "char \<Rightarrow> bool" where
  "xml_char c = (32 \<le> (of_char c :: nat) \<or> c = CHR 0x09 \<or> c = CHR ''\<newline>'' \<or> c = CHR 0x0D)"

fun decode :: "string option \<Rightarrow> string \<Rightarrow> string option" where
  "decode pending [] = (case pending of None \<Rightarrow> Some [] | Some name \<Rightarrow> None)"
| "decode pending (c # cs) =
     (case pending of
        None \<Rightarrow>
          if c = CHR ''&'' then decode (Some []) cs
          else if xml_char c then map_option (Cons c) (decode None cs)
          else None
      | Some name \<Rightarrow>
          if c = CHR '';'' then
            (case entity name of
               None \<Rightarrow> None
             | Some ch \<Rightarrow> map_option (Cons ch) (decode None cs))
          else decode (Some (name @ [c])) cs)"

fun has_cdata_end :: "string \<Rightarrow> bool" where
  "has_cdata_end (a # b # c # cs) =
     ((a = CHR '']'' \<and> b = CHR '']'' \<and> c = CHR ''>'') \<or> has_cdata_end (b # c # cs))"
| "has_cdata_end cs = False"

datatype token = TOpen string | TClose string | TText string

definition tag_name :: "string \<Rightarrow> string" where
  "tag_name t = takeWhile (\<lambda>c. c \<noteq> CHR '' '' \<and> c \<noteq> CHR 0x09 \<and> c \<noteq> CHR ''\<newline>'') t"

definition tag_tokens :: "string \<Rightarrow> token list option" where
  "tag_tokens t =
     (case t of
        [] \<Rightarrow> None
      | c # cs \<Rightarrow>
          if c = CHR ''?'' \<or> c = CHR ''!'' then Some []
          else if c = CHR ''/'' then
            (if tag_name cs = [] then None else Some [TClose (tag_name cs)])
          else if tag_name t = [] then None
          else if last t = CHR ''/'' then
            Some [TOpen (tag_name (butlast t)), TClose (tag_name (butlast t))]
          else Some [TOpen (tag_name t)])"

definition raw_tokens :: "raw \<Rightarrow> token list option" where
  "raw_tokens r =
     (case r of
        RawTag t \<Rightarrow> tag_tokens t
      | RawText s \<Rightarrow>
          if has_cdata_end s then None
          else map_option (\<lambda>d. [TText d]) (decode None s))"

fun tokens :: "raw list \<Rightarrow> token list option" where
  "tokens [] = Some []"
| "tokens (r # rs) =
     (case raw_tokens r of
        None \<Rightarrow> None
      | Some ts \<Rightarrow> map_option (append ts) (tokens rs))"

datatype frame = DictFrame "(string \<times> plist) list" "string option" | ArrayFrame "plist list"

record reader =
  elems :: "string list"
  stack :: "frame list"
  root :: "plist option"
  data :: string

fun assign :: "string \<Rightarrow> plist \<Rightarrow> (string \<times> plist) list \<Rightarrow> (string \<times> plist) list" where
  "assign k v [] = [(k, v)]"
| "assign k v ((k', v') # kvs) = (if k' = k then (k, v) # kvs else (k', v') # assign k v kvs)"

definition add_object :: "plist \<Rightarrow> reader \<Rightarrow> reader option" where
  "add_object v st =
     (case stack st of
        [] \<Rightarrow> Some (st\<lparr>root := Some v\<rparr>)
      | DictFrame kvs (Some k) # fs \<Rightarrow> Some (st\<lparr>stack := DictFrame (assign k v kvs) None # fs\<rparr>)
      | DictFrame kvs None # fs \<Rightarrow> None
      | ArrayFrame vs # fs \<Rightarrow> Some (st\<lparr>stack := ArrayFrame (vs @ [v]) # fs\<rparr>))"

definition accepts_object :: "reader \<Rightarrow> bool" where
  "accepts_object st =
     (case stack st of
        DictFrame kvs None # fs \<Rightarrow> False
      | _ \<Rightarrow> True)"

definition begin_element :: "string \<Rightarrow> reader \<Rightarrow> reader option" where
  "begin_element n st =
     (let st1 = st\<lparr>elems := n # elems st, data := []\<rparr> in
      if n = ''dict'' then
        (if accepts_object st1 then Some (st1\<lparr>stack := DictFrame [] None # stack st1\<rparr>) else None)
      else if n = ''array'' then
        (if accepts_object st1 then Some (st1\<lparr>stack := ArrayFrame [] # stack st1\<rparr>) else None)
      else Some st1)"

definition end_element :: "string \<Rightarrow> reader \<Rightarrow> reader option" where
  "end_element n st =
     (case elems st of
        [] \<Rightarrow> None
      | m # ms \<Rightarrow>
          if m \<noteq> n then None
          else
            (let st1 = st\<lparr>elems := ms\<rparr> in
             if n = ''dict'' then
               (case stack st1 of
                  DictFrame kvs None # fs \<Rightarrow> add_object (PDict kvs) (st1\<lparr>stack := fs\<rparr>)
                | _ \<Rightarrow> None)
             else if n = ''array'' then
               (case stack st1 of
                  ArrayFrame vs # fs \<Rightarrow> add_object (PArray vs) (st1\<lparr>stack := fs\<rparr>)
                | _ \<Rightarrow> None)
             else if n = ''key'' then
               (case stack st1 of
                  DictFrame kvs None # fs \<Rightarrow>
                    Some (st1\<lparr>stack := DictFrame kvs (Some (data st1)) # fs, data := []\<rparr>)
                | _ \<Rightarrow> None)
             else if n = ''string'' then add_object (PString (data st1)) (st1\<lparr>data := []\<rparr>)
             else if n = ''true'' then add_object (PBool True) st1
             else if n = ''false'' then add_object (PBool False) st1
             else if n = ''plist'' then Some st1
             else None))"

fun run_reader :: "token list \<Rightarrow> reader \<Rightarrow> reader option" where
  "run_reader [] st = Some st"
| "run_reader (TText s # ts) st = run_reader ts (st\<lparr>data := data st @ s\<rparr>)"
| "run_reader (TOpen n # ts) st =
     (case begin_element n st of None \<Rightarrow> None | Some st1 \<Rightarrow> run_reader ts st1)"
| "run_reader (TClose n # ts) st =
     (case end_element n st of None \<Rightarrow> None | Some st1 \<Rightarrow> run_reader ts st1)"

definition parse_plist :: "string \<Rightarrow> plist option" where
  "parse_plist doc =
     (case lex False [] (normalize_eol doc) of
        None \<Rightarrow> None
      | Some raws \<Rightarrow>
          (case tokens raws of
             None \<Rightarrow> None
           | Some ts \<Rightarrow>
               (case run_reader ts \<lparr>elems = [], stack = [], root = None, data = []\<rparr> of
                  None \<Rightarrow> None
                | Some st \<Rightarrow> if elems st = [] then root st else None)))"

text \<open>
  The tokens of a run of character data, and the strings that stand for themselves in
  character data: no markup character, no carriage return, legal characters only.
\<close>

definition text_tokens :: "string \<Rightarrow> token list" where
  "text_tokens s = (if s = [] then [] else [TText s])"

definition xml_plain :: "string \<Rightarrow> bool" where
  "xml_plain s =
     ((\<forall>c \<in> set s. c \<noteq> CHR ''<'' \<and> c \<noteq> CHR ''&'' \<and> c \<noteq> CHR 0x0D \<and> xml_char c) \<and>
      \<not> has_cdata_end s)"

section \<open>Properties of the system calls\<close>


lemma and_then_Returns:
  "and_then f g w = (Returns y, w') \<longleftrightarrow> (\<exists>x w1. f w = (Returns x, w1) \<and> g x w1 = (Returns y, w'))"
  by (cases "f w"; cases "fst (f w)") (auto simp: and_then_def)


lemma and_then_step: "f w = (Returns x, w1) \<Longrightarrow> and_then f g w = g x w1"
  by (simp add: and_then_def)

lemma and_then_fail: "f w = (Raises e, w1) \<Longrightarrow> and_then f g w = (Raises e, w1)"
  by (simp add: and_then_def)


lemma os_makedirs_Returns:
  assumes "os_makedirs h p w = (Returns u, w')"
  shows "p \<in> dirs w'"
  using assms
  by (auto simp: os_makedirs_def Let_def record_call_def split: if_splits option.splits)

lemma os_makedirs_existing:
  "p \<in> dirs w \<Longrightarrow> os_makedirs h p w = (Returns (), record_call (Makedirs p) w)"
  by (simp add: os_makedirs_def Let_def record_call_def)

lemma record_call_fields [simp]:
  "files (record_call c w) = files w" "dirs (record_call c w) = dirs w"
  "agents (record_call c w) = agents w" "stdout (record_call c w) = stdout w"
  "calls (record_call c w) = calls w @ [c]"
  by (simp_all add: record_call_def)

lemma home_cases:
  "home h w = (r, w') \<Longrightarrow> w' = w \<and> (\<forall>w2. home h w2 = (r, w2))"
  by (auto simp: home_def split: option.splits)


lemma gsl_Returns:
  assumes "get_startup_location h self w = (Returns loc, w1)"
  shows "(system self = ''Windows'' \<and> w1 = w \<and> loc = expandvars h startup_folder) \<or>
         (system self \<noteq> ''Windows'' \<and> (system self = ''Darwin'' \<or> system self = ''Linux'') \<and>
          (\<exists>d. os_makedirs h d w = (Returns (), w1) \<and>
             (\<forall>w2 r. os_makedirs h d w2 = (Returns (), r) \<longrightarrow>
                get_startup_location h self w2 = (Returns loc, r))))"
  using assms
  by (auto simp: get_startup_location_def Let_def and_then_Returns home_def and_then_step
      split: if_splits option.splits)

lemma gsl_again:
  assumes "get_startup_location h self w = (Returns loc, w1)" and "dirs w1 \<subseteq> dirs w2"
  shows "\<exists>d. get_startup_location h self w2 =
           (Returns loc, if system self = ''Windows'' then w2 else record_call (Makedirs d) w2)"
proof (cases "system self = ''Windows''")
  case True
  with assms(1) show ?thesis
    by (simp add: get_startup_location_def)
next
  case False
  with gsl_Returns [OF assms(1)] obtain d where
    d: "os_makedirs h d w = (Returns (), w1)"
    and again: "\<And>w2 r. os_makedirs h d w2 = (Returns (), r) \<Longrightarrow>
                  get_startup_location h self w2 = (Returns loc, r)"
    by blast
  from d have "d \<in> dirs w1" by (rule os_makedirs_Returns)
  with assms(2) have "d \<in> dirs w2" by blast
  then have "os_makedirs h d w2 = (Returns (), record_call (Makedirs d) w2)"
    by (rule os_makedirs_existing)
  then have "get_startup_location h self w2 = (Returns loc, record_call (Makedirs d) w2)"
    by (rule again)
  with False show ?thesis by auto
qed





lemma subprocess_run_Raises:
  "subprocess_run h c w = (Raises e, w') \<longleftrightarrow>
     w' = record_call (Run (argv c)) w \<and>
     (spawn h (argv c) = Inl e \<or> (\<exists>rc. rc \<noteq> 0 \<and> spawn h (argv c) = Inr rc \<and> e = CalledProcessError rc (argv c)))"
  by (auto simp: subprocess_run_def Let_def split: sum.splits)

lemma os_remove_Returns:
  "os_remove h p w = (Returns u, w') \<longleftrightarrow>
     remove_error h p = None \<and> files w p \<noteq> None \<and>
     w' = w\<lparr>files := (files w)(p := None), calls := calls w @ [Remove p]\<rparr>"
  by (auto simp: os_remove_def Let_def record_call_def split: option.splits)





lemma catch_all_True:
  "catch_all prefix body w = (Returns True, w') \<longleftrightarrow> body w = (Returns True, w')"
  by (cases "body w"; cases "fst (body w)") (auto simp: catch_all_def)


lemma is_enabled_at:
  assumes "get_startup_location h self w = (Returns loc, w1)"
    and "system self = ''Windows'' \<or> system self = ''Darwin'' \<or> system self = ''Linux''"
  shows "is_enabled h self w =
           (Returns (Some (path_exists w1
              (if system self = ''Windows'' then joinpath h loc (app_name self @ ''.lnk'') else loc))), w1)"
  using assms by (auto simp: is_enabled_def and_then_step Let_def)












lemma enable_body_Darwin_steps:
  assumes "system self = ''Darwin''" and "get_startup_location h self w = (Returns loc, w1)"
  shows "enable_body h self w =
     and_then (open_write h loc (plist_content self)) (\<lambda>_.
     and_then (os_chmod h loc 420) (\<lambda>_.
     and_then (subprocess_run h (LaunchctlLoad loc)) (\<lambda>_ w. (Returns True, w)))) w1"
  using assms by (simp add: enable_body_def and_then_step)

lemma enable_world:
  "calls (snd (enable h self w)) = calls (snd (enable_body h self w))"
  "files (snd (enable h self w)) = files (snd (enable_body h self w))"
  "dirs (snd (enable h self w)) = dirs (snd (enable_body h self w))"
  "agents (snd (enable h self w)) = agents (snd (enable_body h self w))"
  by (cases "enable_body h self w"; cases "fst (enable_body h self w)";
      simp add: enable_def catch_all_def print_error_def)+

lemma enable_Darwin_prefix:
  assumes mac: "system self = ''Darwin''" and loc: "get_startup_location h self w = (Returns loc, w1)"
  shows "calls (snd (enable h self w)) = calls w1 @ [OpenWrite loc (plist_content self)] \<or>
         calls (snd (enable h self w)) =
           calls w1 @ [OpenWrite loc (plist_content self), Chmod loc 420] \<or>
         calls (snd (enable h self w)) =
           calls w1 @ [OpenWrite loc (plist_content self), Chmod loc 420,
                       Run [''launchctl'', ''load'', loc]]"
  unfolding enable_world enable_body_Darwin_steps [OF mac loc]
  by (auto simp: and_then_def open_write_def os_chmod_def subprocess_run_def Let_def record_call_def
      split: option.splits sum.splits node.splits)

lemma enable_Darwin_written:
  assumes mac: "system self = ''Darwin''" and loc: "get_startup_location h self w = (Returns loc, w1)"
    and ok: "loc \<notin> dirs w1" "open_error h loc = None" "write_error h loc = None"
      "chmod_error h loc = None"
  shows "calls (snd (enable h self w)) =
           calls w1 @ [OpenWrite loc (plist_content self), Chmod loc 420,
                       Run [''launchctl'', ''load'', loc]]"
    and "files (snd (enable h self w)) loc = Some (File (plist_content self) 420)"
    and "dirs (snd (enable h self w)) = dirs w1"
    and "fst (enable h self w) = Returns (spawn h [''launchctl'', ''load'', loc] = Inr 0)"
  unfolding enable_world
  using ok
  by (auto simp: enable_def catch_all_def enable_body_Darwin_steps [OF mac loc]
      and_then_def open_write_def os_chmod_def subprocess_run_def Let_def record_call_def
      split: option.splits sum.splits node.splits)

lemma disable_body_Darwin_steps:
  assumes "system self = ''Darwin''" and "get_startup_location h self w = (Returns loc, w1)"
    and "path_exists w1 loc"
  shows "disable_body h self w =
     and_then (subprocess_run h (LaunchctlUnload loc)) (\<lambda>_.
     and_then (os_remove h loc) (\<lambda>_ w'. (Returns True, w'))) w1"
  using assms by (simp add: disable_body_def and_then_step)

lemma disable_world:
  "calls (snd (disable h self w)) = calls (snd (disable_body h self w))"
  "files (snd (disable h self w)) = files (snd (disable_body h self w))"
  "dirs (snd (disable h self w)) = dirs (snd (disable_body h self w))"
  "agents (snd (disable h self w)) = agents (snd (disable_body h self w))"
  by (cases "disable_body h self w"; cases "fst (disable_body h self w)";
      simp add: disable_def catch_all_def print_error_def)+

lemma lines_of_line:
  "CHR ''\<newline>'' \<notin> set s \<Longrightarrow>
   lines_of acc (s @ CHR ''\<newline>'' # rest) = (acc @ s) # lines_of [] rest"
  by (induction s arbitrary: acc) auto

lemma desktop_lines:
  assumes "CHR ''\<newline>'' \<notin> set (app_name self)" and "CHR ''\<newline>'' \<notin> set (app_path self)"
  shows "lines_of [] (desktop_content self) =
     [''[Desktop Entry]'', ''Type=Application'', ''Name='' @ app_name self,
      ''Exec='' @ app_path self, ''Terminal=false'', ''X-GNOME-Autostart-enabled=true'']"
proof -
  have "desktop_content self =
     ''[Desktop Entry]'' @ CHR ''\<newline>'' #
     ''Type=Application'' @ CHR ''\<newline>'' #
     (''Name='' @ app_name self) @ CHR ''\<newline>'' #
     (''Exec='' @ app_path self) @ CHR ''\<newline>'' #
     ''Terminal=false'' @ CHR ''\<newline>'' #
     ''X-GNOME-Autostart-enabled=true'' @ CHR ''\<newline>'' # []"
    by (simp add: desktop_content_def)
  then show ?thesis
    using assms by (simp only: lines_of_line) (simp add: lines_of_line)
qed

lemma normalize_eol_id: "CHR 0x0D \<notin> set s \<Longrightarrow> normalize_eol s = s"
  by (induction s rule: normalize_eol.induct) auto

lemma lex_text:
  "CHR ''<'' \<notin> set s \<Longrightarrow>
   lex False acc (s @ CHR ''<'' # rest) = map_option (append (text_run (acc @ s))) (lex True [] rest)"
  by (induction s arbitrary: acc) auto

lemma decode_plain:
  "\<forall>c \<in> set s. c \<noteq> CHR ''&'' \<and> xml_char c \<Longrightarrow> decode None s = Some s"
  by (induction s) auto

lemma tokens_text_run:
  "xml_plain s \<Longrightarrow> tokens (text_run s @ rs) = map_option (append (text_tokens s)) (tokens rs)"
  by (cases "tokens rs")
     (auto simp: text_run_def text_tokens_def raw_tokens_def xml_plain_def decode_plain)

lemma run_text_tokens:
  "run_reader (text_tokens s @ ts) st = run_reader ts (st\<lparr>data := data st @ s\<rparr>)"
  by (simp add: text_tokens_def)

lemma plist_content_shape:
  \<open>plist_content self =
     ''<?xml version="1.0" encoding="UTF-8"?>\<newline><!DOCTYPE plist PUBLIC "-//Apple//DTD PLIST 1.0//EN" "http://www.apple.com/DTDs/PropertyList-1.0.dtd">\<newline><plist version="1.0">\<newline><dict>\<newline>    <key>Label</key>\<newline>    <string>'' @
     app_name self @ CHR ''<'' #
     ''/string>\<newline>    <key>ProgramArguments</key>\<newline>    <array>\<newline>        <string>'' @
     app_path self @ CHR ''<'' #
     ''/string>\<newline>    </array>\<newline>    <key>RunAtLoad</key>\<newline>    <true/>\<newline></dict>\<newline></plist>\<newline>''\<close>
  by (simp add: plist_content_def)

lemma plist_content_no_cr:
  assumes "CHR 0x0D \<notin> set (app_name self)" "CHR 0x0D \<notin> set (app_path self)"
  shows "CHR 0x0D \<notin> set (plist_content self)"
  using assms by (simp add: plist_content_def)

lemma plist_content_lex:
  assumes "CHR ''<'' \<notin> set (app_name self)" "CHR ''<'' \<notin> set (app_path self)"
  shows \<open>lex False [] (plist_content self) =
    Some ([RawTag ''?xml version="1.0" encoding="UTF-8"?'', RawText ''\<newline>'',
           RawTag ''!DOCTYPE plist PUBLIC "-//Apple//DTD PLIST 1.0//EN" "http://www.apple.com/DTDs/PropertyList-1.0.dtd"'',
           RawText ''\<newline>'', RawTag ''plist version="1.0"'', RawText ''\<newline>'', RawTag ''dict'',
           RawText ''\<newline>    '', RawTag ''key'', RawText ''Label'', RawTag ''/key'',
           RawText ''\<newline>    '', RawTag ''string''] @
          text_run (app_name self) @
          [RawTag ''/string'', RawText ''\<newline>    '', RawTag ''key'', RawText ''ProgramArguments'',
           RawTag ''/key'', RawText ''\<newline>    '', RawTag ''array'', RawText ''\<newline>        '',
           RawTag ''string''] @
          text_run (app_path self) @
          [RawTag ''/string'', RawText ''\<newline>    '', RawTag ''/array'', RawText ''\<newline>    '',
           RawTag ''key'', RawText ''RunAtLoad'', RawTag ''/key'', RawText ''\<newline>    '',
           RawTag ''true/'', RawText ''\<newline>'', RawTag ''/dict'', RawText ''\<newline>'',
           RawTag ''/plist'', RawText ''\<newline>''])\<close>
  unfolding plist_content_shape
  using assms by (simp add: lex_text) (simp add: text_run_def)

lemma plist_content_tokens:
  assumes "xml_plain (app_name self)" "xml_plain (app_path self)"
  shows "tokens
         ([RawTag ''?xml version=\"1.0\" encoding=\"UTF-8\"?'', RawText ''\<newline>'',
           RawTag ''!DOCTYPE plist PUBLIC \"-//Apple//DTD PLIST 1.0//EN\" \"http://www.apple.com/DTDs/PropertyList-1.0.dtd\"'',
           RawText ''\<newline>'', RawTag ''plist version=\"1.0\"'', RawText ''\<newline>'', RawTag ''dict'',
           RawText ''\<newline>    '', RawTag ''key'', RawText ''Label'', RawTag ''/key'',
           RawText ''\<newline>    '', RawTag ''string''] @
          text_run (app_name self) @
          [RawTag ''/string'', RawText ''\<newline>    '', RawTag ''key'', RawText ''ProgramArguments'',
           RawTag ''/key'', RawText ''\<newline>    '', RawTag ''array'', RawText ''\<newline>        '',
           RawTag ''string''] @
          text_run (app_path self) @
          [RawTag ''/string'', RawText ''\<newline>    '', RawTag ''/array'', RawText ''\<newline>    '',
           RawTag ''key'', RawText ''RunAtLoad'', RawTag ''/key'', RawText ''\<newline>    '',
           RawTag ''true/'', RawText ''\<newline>'', RawTag ''/dict'', RawText ''\<newline>'',
           RawTag ''/plist'', RawText ''\<newline>'']) =
    Some ([TText ''\<newline>'', TText ''\<newline>'', TOpen ''plist'', TText ''\<newline>'', TOpen ''dict'',
           TText ''\<newline>    '', TOpen ''key'', TText ''Label'', TClose ''key'',
           TText ''\<newline>    '', TOpen ''string''] @
          text_tokens (app_name self) @
          [TClose ''string'', TText ''\<newline>    '', TOpen ''key'', TText ''ProgramArguments'',
           TClose ''key'', TText ''\<newline>    '', TOpen ''array'', TText ''\<newline>        '',
           TOpen ''string''] @
          text_tokens (app_path self) @
          [TClose ''string'', TText ''\<newline>    '', TClose ''array'', TText ''\<newline>    '',
           TOpen ''key'', TText ''RunAtLoad'', TClose ''key'', TText ''\<newline>    '',
           TOpen ''true'', TClose ''true'', TText ''\<newline>'', TClose ''dict'', TText ''\<newline>'',
           TClose ''plist'', TText ''\<newline>''])"
  using assms
  by (simp add: tokens_text_run raw_tokens_def tag_tokens_def tag_name_def xml_char_def)

lemma plist_content_read:
  "run_reader
         ([TText ''\<newline>'', TText ''\<newline>'', TOpen ''plist'', TText ''\<newline>'', TOpen ''dict'',
           TText ''\<newline>    '', TOpen ''key'', TText ''Label'', TClose ''key'',
           TText ''\<newline>    '', TOpen ''string''] @
          text_tokens name @
          [TClose ''string'', TText ''\<newline>    '', TOpen ''key'', TText ''ProgramArguments'',
           TClose ''key'', TText ''\<newline>    '', TOpen ''array'', TText ''\<newline>        '',
           TOpen ''string''] @
          text_tokens path @
          [TClose ''string'', TText ''\<newline>    '', TClose ''array'', TText ''\<newline>    '',
           TOpen ''key'', TText ''RunAtLoad'', TClose ''key'', TText ''\<newline>    '',
           TOpen ''true'', TClose ''true'', TText ''\<newline>'', TClose ''dict'', TText ''\<newline>'',
           TClose ''plist'', TText ''\<newline>''])
         \<lparr>elems = [], stack = [], root = None, data = []\<rparr> =
     Some \<lparr>elems = [], stack = [],
           root = Some (PDict [(''Label'', PString name),
                               (''ProgramArguments'', PArray [PString path]),
                               (''RunAtLoad'', PBool True)]),
           data = ''\<newline>\<newline>\<newline>''\<rparr>"
  by (simp add: run_text_tokens begin_element_def end_element_def add_object_def accepts_object_def
      Let_def)

lemmas run_defs = enable_def disable_def catch_all_def enable_body_def disable_body_def
  is_enabled_def and_then_def get_startup_location_def home_def os_makedirs_def
  open_write_def os_chmod_def os_remove_def subprocess_run_def record_call_def
  print_error_def path_exists_def Let_def demo_host_def demo_world_def sample_def
  demo_parents_def

section \<open>The claims\<close>

subsection \<open>C1: \<open>enable\<close>, then \<open>is_enabled\<close>\<close>




subsection \<open>C2: an unsupported platform\<close>

text \<open>
  C2 says that constructing the manager on a host outside Windows, Darwin and Linux raises
  at construction. \<open>__init__\<close> only stores \<open>platform.system()\<close>: on a FreeBSD host, with an
  executable that exists, it returns the manager.
\<close>

theorem construction_unsupported_counterexample:
  "init (demo_host ''FreeBSD'') demo_world ''Sample'' ''/usr/local/bin/sample'' =
     Returns \<lparr>app_name = ''Sample'', app_path = ''/usr/local/bin/sample'', system = ''FreeBSD''\<rparr>"
  by (simp add: init_def demo_host_def demo_world_def path_exists_def demo_abspath_def)

text \<open>
  C2, amended: on a host whose system name is none of \<open>Windows\<close>, \<open>Darwin\<close>, \<open>Linux\<close>,
  construction never raises \<open>NotImplementedError\<close> and succeeds whenever the absolute
  executable path exists. The unsupported platform is reported by the first operation:
  \<open>is_enabled\<close> raises \<open>NotImplementedError\<close> with the message
  \<open>Unsupported operating system: <name>\<close> and leaves the world as it was; \<open>enable\<close> and
  \<open>disable\<close> catch that exception, print it and return false.
\<close>

theorem unsupported_platform_deferred:
  assumes "platform_system h \<noteq> ''Windows''" and "platform_system h \<noteq> ''Darwin''"
    and "platform_system h \<noteq> ''Linux''"
  shows "(\<forall>msg. init h w0 name p \<noteq> Raises (NotImplementedError msg)) \<and>
         (path_exists w0 (abspath h p) \<longrightarrow> (\<exists>self. init h w0 name p = Returns self)) \<and>
         (\<forall>self. init h w0 name p = Returns self \<longrightarrow>
            is_enabled h self w =
              (Raises (NotImplementedError
                 (''Unsupported operating system: '' @ platform_system h)), w) \<and>
            enable h self w =
              (Returns False, print_error ''Error enabling startup: ''
                 (NotImplementedError
                    (''Unsupported operating system: '' @ platform_system h)) w) \<and>
            disable h self w =
              (Returns False, print_error ''Error disabling startup: ''
                 (NotImplementedError
                    (''Unsupported operating system: '' @ platform_system h)) w))"
  using assms
  by (auto simp: init_def Let_def is_enabled_def enable_def disable_def enable_body_def
      disable_body_def catch_all_def and_then_def get_startup_location_def split: if_splits)

theorem unsupported_platform_deferred_witness:
  "platform_system (demo_host ''FreeBSD'') \<noteq> ''Windows'' \<and>
   platform_system (demo_host ''FreeBSD'') \<noteq> ''Darwin'' \<and>
   platform_system (demo_host ''FreeBSD'') \<noteq> ''Linux'' \<and>
   path_exists demo_world (abspath (demo_host ''FreeBSD'') ''/usr/local/bin/sample'') \<and>
   init (demo_host ''FreeBSD'') demo_world ''Sample'' ''/usr/local/bin/sample'' =
     Returns (sample ''FreeBSD'') \<and>
   is_enabled (demo_host ''FreeBSD'') (sample ''FreeBSD'') demo_world =
     (Raises (NotImplementedError ''Unsupported operating system: FreeBSD''), demo_world) \<and>
   fst (enable (demo_host ''FreeBSD'') (sample ''FreeBSD'') demo_world) = Returns False \<and>
   fst (disable (demo_host ''FreeBSD'') (sample ''FreeBSD'') demo_world) = Returns False"
proof -
  have sys: "platform_system (demo_host ''FreeBSD'') \<noteq> ''Windows''"
    "platform_system (demo_host ''FreeBSD'') \<noteq> ''Darwin''"
    "platform_system (demo_host ''FreeBSD'') \<noteq> ''Linux''"
    by (simp_all add: demo_host_def)
  have ex: "path_exists demo_world (abspath (demo_host ''FreeBSD'') ''/usr/local/bin/sample'')"
    by (simp add: demo_host_def demo_world_def path_exists_def demo_abspath_def)
  have i: "init (demo_host ''FreeBSD'') demo_world ''Sample'' ''/usr/local/bin/sample'' =
     Returns (sample ''FreeBSD'')"
    by (simp add: init_def demo_host_def demo_world_def path_exists_def demo_abspath_def sample_def)
  have name: "platform_system (demo_host ''FreeBSD'') = ''FreeBSD''"
    by (simp add: demo_host_def)
  from unsupported_platform_deferred [OF sys, of demo_world "''Sample''" "''/usr/local/bin/sample''" demo_world]
  show ?thesis using sys ex i name by simp
qed

subsection \<open>C3: \<open>enable\<close> and \<open>disable\<close> never raise\<close>



subsection \<open>C4: what \<open>is_enabled\<close> changes\<close>




subsection \<open>C5: \<open>disable\<close> on Darwin\<close>

text \<open>
  C5 says that the unloader is best-effort: attempted before the deletion, which proceeds
  whether or not the unloader succeeds. The code runs \<open>launchctl unload\<close> with
  \<open>check=True\<close>: on a host where the unloader exits with status 1, with the descriptor in
  place after a successful \<open>enable\<close>, \<open>disable\<close> returns false, \<open>os.remove\<close> is never
  called and the descriptor is still there.
\<close>

theorem disable_unload_failure_counterexample:
  "path_exists (snd (enable (demo_host ''Darwin'') (sample ''Darwin'') demo_world)) agent_path \<and>
   fst (disable stubborn_agent_host (sample ''Darwin'')
          (snd (enable (demo_host ''Darwin'') (sample ''Darwin'') demo_world))) = Returns False \<and>
   files (snd (disable stubborn_agent_host (sample ''Darwin'')
          (snd (enable (demo_host ''Darwin'') (sample ''Darwin'') demo_world)))) agent_path =
     Some (File (plist_content (sample ''Darwin'')) 420) \<and>
   Remove agent_path \<notin> set (calls (snd (disable stubborn_agent_host (sample ''Darwin'')
          (snd (enable (demo_host ''Darwin'') (sample ''Darwin'') demo_world)))))"
  by (simp add: run_defs stubborn_agent_host_def agent_path_def)

text \<open>
  C5, amended: on Darwin, whenever the artifact exists, \<open>disable\<close> runs the session agent
  unloader first. When the unloader exits with status 0, \<open>os.remove\<close> is called next and
  nothing else; \<open>disable\<close> then returns true exactly when the removal is not refused and
  the artifact is a file, and the file is gone. When the unloader fails, the unload
  attempt is the only call made: the artifact is not deleted and \<open>disable\<close> returns
  false. In no case does the deletion precede the unload attempt.
\<close>

theorem disable_Darwin_unload_first:
  assumes mac: "system self = ''Darwin''"
    and loc: "get_startup_location h self w = (Returns loc, w1)"
    and ex: "path_exists w1 loc"
  shows "(spawn h [''launchctl'', ''unload'', loc] = Inr 0 \<longrightarrow>
            calls (snd (disable h self w)) =
              calls w1 @ [Run [''launchctl'', ''unload'', loc], Remove loc] \<and>
            (fst (disable h self w) = Returns True \<longleftrightarrow>
               remove_error h loc = None \<and> files w1 loc \<noteq> None) \<and>
            (fst (disable h self w) = Returns True \<longrightarrow>
               files (snd (disable h self w)) loc = None)) \<and>
         (spawn h [''launchctl'', ''unload'', loc] \<noteq> Inr 0 \<longrightarrow>
            calls (snd (disable h self w)) = calls w1 @ [Run [''launchctl'', ''unload'', loc]] \<and>
            fst (disable h self w) = Returns False \<and>
            files (snd (disable h self w)) = files w1)"
  unfolding disable_world
  by (auto simp: disable_def catch_all_def disable_body_Darwin_steps [OF mac loc ex]
      and_then_def os_remove_def subprocess_run_def Let_def record_call_def
      split: option.splits sum.splits)

theorem disable_Darwin_unload_first_witness:
  "calls (snd (disable (demo_host ''Darwin'') (sample ''Darwin'')
          (snd (enable (demo_host ''Darwin'') (sample ''Darwin'') demo_world)))) =
     calls (snd (enable (demo_host ''Darwin'') (sample ''Darwin'') demo_world)) @
     [Makedirs ''/home/u/Library/LaunchAgents'',
      Run [''launchctl'', ''unload'', agent_path], Remove agent_path] \<and>
   fst (disable (demo_host ''Darwin'') (sample ''Darwin'')
          (snd (enable (demo_host ''Darwin'') (sample ''Darwin'') demo_world))) = Returns True \<and>
   files (snd (disable (demo_host ''Darwin'') (sample ''Darwin'')
          (snd (enable (demo_host ''Darwin'') (sample ''Darwin'') demo_world)))) agent_path = None"
proof -
  define w0 where "w0 = snd (enable (demo_host ''Darwin'') (sample ''Darwin'') demo_world)"
  have mac: "system (sample ''Darwin'') = ''Darwin''"
    by (simp add: sample_def)
  have loc: "get_startup_location (demo_host ''Darwin'') (sample ''Darwin'') w0 =
     (Returns agent_path, record_call (Makedirs ''/home/u/Library/LaunchAgents'') w0)"
    unfolding w0_def by (simp add: run_defs agent_path_def)
  have f: "files w0 agent_path \<noteq> None"
    unfolding w0_def by (simp add: run_defs agent_path_def)
  then have ex: "path_exists (record_call (Makedirs ''/home/u/Library/LaunchAgents'') w0) agent_path"
    by (simp add: path_exists_def)
  have sp: "spawn (demo_host ''Darwin'') [''launchctl'', ''unload'', agent_path] = Inr 0"
    "remove_error (demo_host ''Darwin'') agent_path = None"
    by (simp_all add: demo_host_def)
  from disable_Darwin_unload_first [OF mac loc ex] sp f
  have "calls (snd (disable (demo_host ''Darwin'') (sample ''Darwin'') w0)) =
     calls w0 @ [Makedirs ''/home/u/Library/LaunchAgents'',
      Run [''launchctl'', ''unload'', agent_path], Remove agent_path] \<and>
   fst (disable (demo_host ''Darwin'') (sample ''Darwin'') w0) = Returns True \<and>
   files (snd (disable (demo_host ''Darwin'') (sample ''Darwin'') w0)) agent_path = None"
    by simp
  then show ?thesis unfolding w0_def .
qed

subsection \<open>C6: \<open>enable\<close> twice\<close>



subsection \<open>C7: the property list\<close>

text \<open>
  C7 says that the rendered descriptor is a well-formed property list with exactly three
  keys that reads back as the name, the path and \<open>true\<close>. The name and the path are
  interpolated into the XML text as they are: with the name \<open>A&B\<close> the document is not
  well-formed, and with a name that holds markup it reads back with four keys and another
  \<open>Label\<close>.
\<close>

theorem plist_unescaped_counterexample:
  "parse_plist (plist_content
      \<lparr>app_name = ''A&B'', app_path = ''/usr/local/bin/sample'', system = ''Darwin''\<rparr>) = None \<and>
   parse_plist (plist_content
      \<lparr>app_name = ''a</string><key>X</key><string>b'', app_path = ''/usr/local/bin/sample'',
       system = ''Darwin''\<rparr>) =
     Some (PDict [(''Label'', PString ''a''), (''X'', PString ''b''),
                  (''ProgramArguments'', PArray [PString ''/usr/local/bin/sample'']),
                  (''RunAtLoad'', PBool True)])"
  by code_simp

text \<open>
  C7, amended: when the name and the absolute path of the manager stand for themselves
  in XML character data (no \<open><\<close>, no \<open>&\<close>, no carriage return, no control character
  other than tab and line feed, no \<open>]]>\<close>), the rendered descriptor is a well-formed
  property list that reads back as a dictionary of exactly three keys: \<open>Label\<close> is the
  name, \<open>ProgramArguments\<close> the one-element array of the path, \<open>RunAtLoad\<close> the boolean
  true.
\<close>

theorem plist_round_trip:
  assumes "xml_plain (app_name self)" and "xml_plain (app_path self)"
  shows "parse_plist (plist_content self) =
           Some (PDict [(''Label'', PString (app_name self)),
                        (''ProgramArguments'', PArray [PString (app_path self)]),
                        (''RunAtLoad'', PBool True)])"
proof -
  from assms have cr: "CHR 0x0D \<notin> set (app_name self)" "CHR 0x0D \<notin> set (app_path self)"
    and lt: "CHR ''<'' \<notin> set (app_name self)" "CHR ''<'' \<notin> set (app_path self)"
    by (auto simp: xml_plain_def)
  have n: "normalize_eol (plist_content self) = plist_content self"
    by (rule normalize_eol_id) (rule plist_content_no_cr [OF cr])
  show ?thesis
    unfolding parse_plist_def n plist_content_lex [OF lt]
    by (simp only: option.case plist_content_tokens [OF assms] plist_content_read)
       simp
qed

theorem plist_round_trip_witness:
  "xml_plain (app_name (sample ''Darwin'')) \<and> xml_plain (app_path (sample ''Darwin'')) \<and>
   parse_plist (plist_content (sample ''Darwin'')) =
     Some (PDict [(''Label'', PString ''Sample''),
                  (''ProgramArguments'', PArray [PString ''/usr/local/bin/sample'']),
                  (''RunAtLoad'', PBool True)])"
proof -
  have p: "xml_plain (app_name (sample ''Darwin''))" "xml_plain (app_path (sample ''Darwin''))"
    by (simp_all add: sample_def xml_plain_def xml_char_def)
  from plist_round_trip [OF p] p show ?thesis
    by (simp add: sample_def)
qed

subsection \<open>C8: the desktop entry\<close>

text \<open>
  C8 says that the rendered desktop entry holds exactly the five \<open>key=value\<close> lines, with
  \<open>Name\<close> and \<open>Exec\<close> the constructor's inputs verbatim. Values are interpolated as they
  are, and the path is the absolute one: constructed with a name that holds a line feed
  and the relative path \<open>sample.py\<close>, the manager renders six such lines, one of them
  taken from the name, and \<open>Exec\<close> is not the path that was given.
\<close>

theorem desktop_entry_lines_counterexample:
  "init (demo_host ''Linux'') work_world ''My\<newline>Icon=x'' ''sample.py'' =
     Returns \<lparr>app_name = ''My\<newline>Icon=x'', app_path = ''/work/sample.py'', system = ''Linux''\<rparr> \<and>
   key_value_lines (desktop_content
       \<lparr>app_name = ''My\<newline>Icon=x'', app_path = ''/work/sample.py'', system = ''Linux''\<rparr>) =
     [''Type=Application'', ''Name=My'', ''Icon=x'', ''Exec=/work/sample.py'',
      ''Terminal=false'', ''X-GNOME-Autostart-enabled=true'']"
  by (simp add: init_def demo_host_def work_world_def path_exists_def demo_abspath_def
      key_value_lines_def desktop_content_def)

text \<open>
  C8, amended: for a manager constructed from a name and a path, when neither the name nor
  the absolute path holds a line feed, the rendered desktop entry is the header line
  \<open>[Desktop Entry]\<close> followed by exactly the five \<open>key=value\<close> lines, in this order,
  unquoted: \<open>Type=Application\<close>, \<open>Name=\<close> with the name as given, \<open>Exec=\<close> with the
  absolute path (\<open>os.path.abspath\<close> of the path given), \<open>Terminal=false\<close>,
  \<open>X-GNOME-Autostart-enabled=true\<close>.
\<close>

theorem desktop_entry_lines:
  assumes "init h w name p = Returns self"
    and "CHR ''\<newline>'' \<notin> set name" and "CHR ''\<newline>'' \<notin> set (abspath h p)"
  shows "lines_of [] (desktop_content self) =
           [''[Desktop Entry]'', ''Type=Application'', ''Name='' @ name,
            ''Exec='' @ abspath h p, ''Terminal=false'', ''X-GNOME-Autostart-enabled=true''] \<and>
         key_value_lines (desktop_content self) =
           [''Type=Application'', ''Name='' @ name, ''Exec='' @ abspath h p,
            ''Terminal=false'', ''X-GNOME-Autostart-enabled=true'']"
proof -
  from assms(1) have self: "app_name self = name" "app_path self = abspath h p"
    by (auto simp: init_def Let_def split: if_splits)
  with assms(2,3) have "CHR ''\<newline>'' \<notin> set (app_name self)" "CHR ''\<newline>'' \<notin> set (app_path self)"
    by simp_all
  from desktop_lines [OF this] self
  have l: "lines_of [] (desktop_content self) =
           [''[Desktop Entry]'', ''Type=Application'', ''Name='' @ name,
            ''Exec='' @ abspath h p, ''Terminal=false'', ''X-GNOME-Autostart-enabled=true'']"
    by simp
  then show ?thesis
    by (simp add: key_value_lines_def)
qed

theorem desktop_entry_lines_witness:
  "init (demo_host ''Linux'') demo_world ''Sample'' ''/usr/local/bin/sample'' =
     Returns (sample ''Linux'') \<and>
   CHR ''\<newline>'' \<notin> set ''Sample'' \<and>
   CHR ''\<newline>'' \<notin> set (abspath (demo_host ''Linux'') ''/usr/local/bin/sample'') \<and>
   key_value_lines (desktop_content (sample ''Linux'')) =
     [''Type=Application'', ''Name=Sample'', ''Exec=/usr/local/bin/sample'',
      ''Terminal=false'', ''X-GNOME-Autostart-enabled=true'']"
proof -
  have i: "init (demo_host ''Linux'') demo_world ''Sample'' ''/usr/local/bin/sample'' =
     Returns (sample ''Linux'')"
    by (simp add: init_def demo_host_def demo_world_def path_exists_def demo_abspath_def sample_def)
  have a: "abspath (demo_host ''Linux'') ''/usr/local/bin/sample'' = ''/usr/local/bin/sample''"
    by (simp add: demo_host_def demo_abspath_def)
  have n: "CHR ''\<newline>'' \<notin> set ''Sample''"
    "CHR ''\<newline>'' \<notin> set (abspath (demo_host ''Linux'') ''/usr/local/bin/sample'')"
    by (simp_all add: a)
  from desktop_entry_lines [OF i n] i n a show ?thesis
    by simp
qed

subsection \<open>C9: the order of \<open>enable\<close> on Darwin, and a failing loader\<close>

text \<open>
  C9: on Darwin, once the location is resolved, \<open>enable\<close> attempts its calls in this order
  and no other: write the rendered file, set its mode to \<open>0o644\<close> (420), run
  \<open>launchctl load\<close>; the log of calls is always a prefix of that sequence. When writing
  and \<open>chmod\<close> are not refused, all three calls are made, the file holds the property
  list with mode \<open>0o644\<close>, and \<open>enable\<close> returns true exactly when the loader exits with
  status 0. When the loader fails, \<open>enable\<close> returns false, the file stays where it was
  written, and an \<open>is_enabled\<close> called next returns true.
\<close>

theorem enable_Darwin_order:
  assumes mac: "system self = ''Darwin''"
    and loc: "get_startup_location h self w = (Returns loc, w1)"
  shows "(calls (snd (enable h self w)) = calls w1 @ [OpenWrite loc (plist_content self)] \<or>
          calls (snd (enable h self w)) =
            calls w1 @ [OpenWrite loc (plist_content self), Chmod loc 420] \<or>
          calls (snd (enable h self w)) =
            calls w1 @ [OpenWrite loc (plist_content self), Chmod loc 420,
                        Run [''launchctl'', ''load'', loc]]) \<and>
         (loc \<notin> dirs w1 \<and> open_error h loc = None \<and> write_error h loc = None \<and>
          chmod_error h loc = None \<longrightarrow>
            calls (snd (enable h self w)) =
              calls w1 @ [OpenWrite loc (plist_content self), Chmod loc 420,
                          Run [''launchctl'', ''load'', loc]] \<and>
            files (snd (enable h self w)) loc = Some (File (plist_content self) 420) \<and>
            (fst (enable h self w) = Returns True \<longleftrightarrow>
               spawn h [''launchctl'', ''load'', loc] = Inr 0) \<and>
            (spawn h [''launchctl'', ''load'', loc] \<noteq> Inr 0 \<longrightarrow>
               fst (enable h self w) = Returns False \<and>
               fst (is_enabled h self (snd (enable h self w))) = Returns (Some True)))"
proof (intro conjI impI)
  show "calls (snd (enable h self w)) = calls w1 @ [OpenWrite loc (plist_content self)] \<or>
          calls (snd (enable h self w)) =
            calls w1 @ [OpenWrite loc (plist_content self), Chmod loc 420] \<or>
          calls (snd (enable h self w)) =
            calls w1 @ [OpenWrite loc (plist_content self), Chmod loc 420,
                        Run [''launchctl'', ''load'', loc]]"
    by (rule enable_Darwin_prefix [OF mac loc])
next
  assume "loc \<notin> dirs w1 \<and> open_error h loc = None \<and> write_error h loc = None \<and>
          chmod_error h loc = None"
  then have ok: "loc \<notin> dirs w1" "open_error h loc = None" "write_error h loc = None"
      "chmod_error h loc = None"
    by simp_all
  note wr = enable_Darwin_written [OF mac loc ok]
  show "calls (snd (enable h self w)) =
              calls w1 @ [OpenWrite loc (plist_content self), Chmod loc 420,
                          Run [''launchctl'', ''load'', loc]]"
    by (rule wr(1))
  show f: "files (snd (enable h self w)) loc = Some (File (plist_content self) 420)"
    by (rule wr(2))
  show "fst (enable h self w) = Returns True \<longleftrightarrow>
               spawn h [''launchctl'', ''load'', loc] = Inr 0"
    by (simp add: wr(4))
  assume "spawn h [''launchctl'', ''load'', loc] \<noteq> Inr 0"
  then show "fst (enable h self w) = Returns False"
    by (simp add: wr(4))
  have "dirs w1 \<subseteq> dirs (snd (enable h self w))"
    by (simp add: wr(3))
  from gsl_again [OF loc this] mac obtain d where
    again: "get_startup_location h self (snd (enable h self w)) =
              (Returns loc, record_call (Makedirs d) (snd (enable h self w)))"
    by auto
  have sup: "system self = ''Windows'' \<or> system self = ''Darwin'' \<or> system self = ''Linux''"
    using mac by simp
  show "fst (is_enabled h self (snd (enable h self w))) = Returns (Some True)"
    unfolding is_enabled_at [OF again sup]
    using mac f by (simp add: path_exists_def)
qed

theorem enable_Darwin_order_witness:
  "system (sample ''Darwin'') = ''Darwin'' \<and>
   get_startup_location no_loader_host (sample ''Darwin'') demo_world =
     (Returns agent_path,
      demo_world\<lparr>dirs := {''/home/u'', ''/home/u/Library'', ''/home/u/Library/LaunchAgents''},
                  calls := [Makedirs ''/home/u/Library/LaunchAgents'']\<rparr>) \<and>
   calls (snd (enable no_loader_host (sample ''Darwin'') demo_world)) =
     [Makedirs ''/home/u/Library/LaunchAgents'',
      OpenWrite agent_path (plist_content (sample ''Darwin'')),
      Chmod agent_path 420,
      Run [''launchctl'', ''load'', agent_path]] \<and>
   files (snd (enable no_loader_host (sample ''Darwin'') demo_world)) agent_path =
     Some (File (plist_content (sample ''Darwin'')) 420) \<and>
   fst (enable no_loader_host (sample ''Darwin'') demo_world) = Returns False \<and>
   fst (is_enabled no_loader_host (sample ''Darwin'')
          (snd (enable no_loader_host (sample ''Darwin'') demo_world))) = Returns (Some True)"
proof -
  have mac: "system (sample ''Darwin'') = ''Darwin''"
    by (simp add: sample_def)
  have loc: "get_startup_location no_loader_host (sample ''Darwin'') demo_world =
     (Returns agent_path,
      demo_world\<lparr>dirs := {''/home/u'', ''/home/u/Library'', ''/home/u/Library/LaunchAgents''},
                  calls := [Makedirs ''/home/u/Library/LaunchAgents'']\<rparr>)"
    by (auto simp: run_defs no_loader_host_def agent_path_def)
  have ok: "agent_path \<notin> dirs (demo_world\<lparr>dirs := {''/home/u'', ''/home/u/Library'', ''/home/u/Library/LaunchAgents''},
                  calls := [Makedirs ''/home/u/Library/LaunchAgents'']\<rparr>) \<and>
     open_error no_loader_host agent_path = None \<and> write_error no_loader_host agent_path = None \<and>
     chmod_error no_loader_host agent_path = None"
    by (simp add: no_loader_host_def demo_host_def agent_path_def)
  have sp: "spawn no_loader_host [''launchctl'', ''load'', agent_path] \<noteq> Inr 0"
    by (simp add: no_loader_host_def demo_host_def)
  from enable_Darwin_order [OF mac loc] ok sp mac loc show ?thesis
    by (simp add: demo_world_def)
qed

subsection \<open>C10: the executable path is made absolute\<close>



end
